theory Spec2Isabelle
  imports Main
begin

section \<open>JavaScript values\<close>

text \<open>
  The codec engine works on values of type \<^verbatim>\<open>unknown\<close>. The model carries the runtime
  values that plain data is made of: \<^verbatim>\<open>undefined\<close>, \<^verbatim>\<open>null\<close>, booleans, numbers, strings,
  arrays and objects, and the built-in functions that a property read finds on the
  prototype of an object or an array. A number is an integer here (nothing proved below
  computes with numbers), an object is the ordered list of its own properties, and a
  built-in function is known by its name.
\<close>

datatype jsval =
    JUndefined
  | JNull
  | JBool bool
  | JNum int
  | JStr string
  | JArr "jsval list"
  | JObj "(string \<times> jsval) list"
  | JFun string

text \<open>The \<^verbatim>\<open>typeof\<close> operator.\<close>

fun typeof :: "jsval \<Rightarrow> string" where
  "typeof JUndefined = ''undefined''"
| "typeof JNull = ''object''"
| "typeof (JBool b) = ''boolean''"
| "typeof (JNum n) = ''number''"
| "typeof (JStr s) = ''string''"
| "typeof (JArr xs) = ''object''"
| "typeof (JObj ps) = ''object''"
| "typeof (JFun f) = ''function''"

fun isArray :: "jsval \<Rightarrow> bool" where
  "isArray (JArr xs) = True"
| "isArray v = False"

text \<open>Template-literal rendering of a non-negative index, \<^verbatim>\<open>`${i}`\<close>: decimal digits.\<close>

definition digit_char :: "nat \<Rightarrow> char" where
  "digit_char d = ''0123456789'' ! d"

fun show_nat :: "nat \<Rightarrow> string" where
  "show_nat n = (if n < 10 then [digit_char n] else show_nat (n div 10) @ [digit_char (n mod 10)])"

declare show_nat.simps [simp del]

definition show_int :: "int \<Rightarrow> string" where
  "show_int i = (if i < 0 then ''-'' @ show_nat (nat (- i)) else show_nat (nat i))"

text \<open>
  The own properties of a value, in the order \<^verbatim>\<open>hasOwnProperty\<close> and a property read see
  them: an object has its listed properties, an array (and a string) has its index keys
  and \<^verbatim>\<open>length\<close>. The first entry of a key is the one a read returns. The own \<^verbatim>\<open>length\<close>
  and \<^verbatim>\<open>name\<close> of a built-in function are left out: \<^verbatim>\<open>decode\<close> rejects a function by its
  \<^verbatim>\<open>typeof\<close>, and \<^verbatim>\<open>encode\<close> is given decoded values.
\<close>

fun own_properties :: "jsval \<Rightarrow> (string \<times> jsval) list" where
  "own_properties (JObj ps) = ps"
| "own_properties (JArr xs) =
     zip (map show_nat [0..<length xs]) xs @ [(''length'', JNum (int (length xs)))]"
| "own_properties (JStr s) =
     zip (map show_nat [0..<length s]) (map (\<lambda>c. JStr [c]) s) @ [(''length'', JNum (int (length s)))]"
| "own_properties v = []"

text \<open>
  The members of \<^verbatim>\<open>Object.prototype\<close> and of \<^verbatim>\<open>Array.prototype\<close> with a string key, as
  ECMAScript 2023 lists them: every object inherits the first, every array the second
  and then the first. Each is a built-in function; \<^verbatim>\<open>constructor\<close> is \<^verbatim>\<open>Object\<close>, or
  \<^verbatim>\<open>Array\<close>.
\<close>

definition Object_prototype_methods :: "string list" where
  "Object_prototype_methods =
     [''__defineGetter__'', ''__defineSetter__'', ''__lookupGetter__'', ''__lookupSetter__'',
      ''hasOwnProperty'', ''isPrototypeOf'', ''propertyIsEnumerable'', ''toLocaleString'',
      ''toString'', ''valueOf'']"

definition Object_prototype :: "(string \<times> jsval) list" where
  "Object_prototype =
     (''constructor'', JFun ''Object'')
       # map (\<lambda>name. (name, JFun (''Object.prototype.'' @ name))) Object_prototype_methods"

definition Array_prototype_methods :: "string list" where
  "Array_prototype_methods =
     [''at'', ''concat'', ''copyWithin'', ''entries'', ''every'', ''fill'', ''filter'', ''find'',
      ''findIndex'', ''findLast'', ''findLastIndex'', ''flat'', ''flatMap'', ''forEach'',
      ''includes'', ''indexOf'', ''join'', ''keys'', ''lastIndexOf'', ''map'', ''pop'', ''push'',
      ''reduce'', ''reduceRight'', ''reverse'', ''shift'', ''slice'', ''some'', ''sort'', ''splice'',
      ''toLocaleString'', ''toReversed'', ''toSorted'', ''toSpliced'', ''toString'', ''unshift'',
      ''values'', ''with'']"

definition Array_prototype :: "(string \<times> jsval) list" where
  "Array_prototype =
     (''constructor'', JFun ''Array'')
       # map (\<lambda>name. (name, JFun (''Array.prototype.'' @ name))) Array_prototype_methods"

text \<open>
  The properties a value inherits along its prototype chain, nearest first. The accessor
  \<^verbatim>\<open>__proto__\<close> of \<^verbatim>\<open>Object.prototype\<close> returns the prototype itself: for an object that is
  \<^verbatim>\<open>Object.prototype\<close>, given here as the object that has its members as own properties,
  and for an array it is \<^verbatim>\<open>Array.prototype\<close>, which is an empty array. The code reads a
  property that is not an own one on objects and arrays only: \<^verbatim>\<open>decode\<close> reads after the
  \<^verbatim>\<open>typeof\<close> test, \<^verbatim>\<open>encode\<close> after \<^verbatim>\<open>hasOwnProperty\<close> has found the key.
\<close>

fun inherited_properties :: "jsval \<Rightarrow> (string \<times> jsval) list" where
  "inherited_properties (JObj ps) = Object_prototype @ [(''__proto__'', JObj Object_prototype)]"
| "inherited_properties (JArr xs) =
     Array_prototype @ Object_prototype @ [(''__proto__'', JArr [])]"
| "inherited_properties v = []"

text \<open>
  The property read \<^verbatim>\<open>obj[key]\<close>: the own property of that name, else the inherited one,
  else \<^verbatim>\<open>undefined\<close>. The code reads a property only after it has checked that the value
  is neither \<^verbatim>\<open>null\<close> nor \<^verbatim>\<open>undefined\<close> (where the read would throw).
\<close>

definition get_prop :: "jsval \<Rightarrow> string \<Rightarrow> jsval" where
  "get_prop obj key =
     (case map_of (own_properties obj @ inherited_properties obj) key of
        None \<Rightarrow> JUndefined
      | Some v \<Rightarrow> v)"

text \<open>
  The assignment \<^verbatim>\<open>result[key] = v\<close> on the property list of a fresh object. The key
  \<^verbatim>\<open>__proto__\<close> is kept an ordinary key here, although an assignment to it sets the
  prototype of the object instead; a field of that name is not declared by writing it in
  the object literal given to \<^verbatim>\<open>Struct\<close>, only by a computed key.
\<close>

fun set_prop :: "(string \<times> jsval) list \<Rightarrow> string \<Rightarrow> jsval \<Rightarrow> (string \<times> jsval) list" where
  "set_prop [] key v = [(key, v)]"
| "set_prop ((k, w) # ps) key v = (if k = key then (k, v) # ps else (k, w) # set_prop ps key v)"

section \<open>Either (either.ts)\<close>

datatype ('l, 'r) Either = Left 'l | Right 'r

fun isRight :: "('l, 'r) Either \<Rightarrow> bool" where
  "isRight (Right v) = True"
| "isRight (Left v) = False"

fun isLeft :: "('l, 'r) Either \<Rightarrow> bool" where
  "isLeft (Left v) = True"
| "isLeft (Right v) = False"

section \<open>The schema engine (validation.ts)\<close>

record ValidationError =
  path :: "string list option"
  code :: string
  message :: string
  input :: jsval

type_synonym 'a Validation = "(ValidationError list, 'a) Either"

text \<open>
  A thrown \<^verbatim>\<open>Error\<close> is the left summand of a sum, carrying the error's message; the
  right summand is the returned value.
\<close>

type_synonym 'a throws = "string + 'a"

text \<open>
  The \<^verbatim>\<open>Schema\<close> interface. Its member \<^verbatim>\<open>make\<close> is the field \<open>make_schema\<close> (the name
  \<open>make\<close> is taken by the record's own constructor function).
\<close>

record Schema =
  Encoded :: jsval
  Decoded :: jsval
  decode :: "jsval \<Rightarrow> jsval Validation"
  encode :: "jsval \<Rightarrow> jsval throws"
  make_schema :: "jsval \<Rightarrow> jsval throws"

text \<open>
  \<^verbatim>\<open>makePrimitive(guard, typeName, encoder = (x) => x)\<close>: the optional third argument is
  an \<open>option\<close>, \<open>None\<close> when the caller leaves it out.
\<close>

definition makePrimitive ::
  "(jsval \<Rightarrow> bool) \<Rightarrow> string \<Rightarrow> (jsval \<Rightarrow> jsval throws) option \<Rightarrow> Schema" where
  "makePrimitive guard typeName encoder =
     \<lparr> Encoded = JNull,
       Decoded = JNull,
       decode = (\<lambda>data.
         if guard data then Right data
         else Left [\<lparr> path = None,
                      code = ''invalid_type'',
                      message = ''Expected '' @ typeName @ '', received '' @ typeof data,
                      input = data \<rparr>]),
       encode = (case encoder of None \<Rightarrow> (\<lambda>x. Inr x) | Some enc \<Rightarrow> enc),
       make_schema = (\<lambda>data.
         if \<not> guard data
         then Inl (''Validation failed: Expected '' @ typeName @ '', received '' @ typeof data)
         else Inr data) \<rparr>"

text \<open>The path of an error, \<^verbatim>\<open>err.path || []\<close>.\<close>

definition path_or_empty :: "ValidationError \<Rightarrow> string list" where
  "path_or_empty err = (case path err of None \<Rightarrow> [] | Some p \<Rightarrow> p)"

text \<open>\<^verbatim>\<open>{ ...err, path: [key, ...(err.path || [])] }\<close>\<close>

definition with_key :: "string \<Rightarrow> ValidationError \<Rightarrow> ValidationError" where
  "with_key key err = err\<lparr> path := Some (key # path_or_empty err) \<rparr>"

definition required_error :: "string \<Rightarrow> ValidationError" where
  "required_error key =
     \<lparr> path = Some [key],
       code = ''required'',
       message = ''Required field '' @ key @ '' is missing'',
       input = JUndefined \<rparr>"

text \<open>
  The loop of \<^verbatim>\<open>Struct\<close>'s \<^verbatim>\<open>decode\<close> over the declared fields, with the two mutable
  locals \<^verbatim>\<open>result\<close> and \<^verbatim>\<open>errors\<close> passed along. The validators are the own enumerable
  properties of the object given to \<^verbatim>\<open>Struct\<close>, in iteration order.
\<close>

fun Struct_decode_loop ::
  "(string \<times> Schema) list \<Rightarrow> jsval \<Rightarrow> (string \<times> jsval) list \<Rightarrow> ValidationError list
     \<Rightarrow> (string \<times> jsval) list \<times> ValidationError list" where
  "Struct_decode_loop [] obj result errors = (result, errors)"
| "Struct_decode_loop ((key, validator) # rest) obj result errors =
     (let v = get_prop obj key in
      if v = JUndefined
      then Struct_decode_loop rest obj result (errors @ [required_error key])
      else (case decode validator v of
              Right r \<Rightarrow> Struct_decode_loop rest obj (set_prop result key r) errors
            | Left l \<Rightarrow> Struct_decode_loop rest obj result (errors @ map (with_key key) l)))"

definition Struct_decode :: "(string \<times> Schema) list \<Rightarrow> jsval \<Rightarrow> jsval Validation" where
  "Struct_decode validators data =
     (if typeof data \<noteq> ''object'' \<or> data = JNull
      then Left [\<lparr> path = None,
                   code = ''invalid_type'',
                   message = ''Expected object, received ''
                     @ (if data = JNull then ''null'' else typeof data),
                   input = data \<rparr>]
      else (case Struct_decode_loop validators data [] [] of
              (result, errors) \<Rightarrow>
                if length errors > 0 then Left errors else Right (JObj result)))"

text \<open>
  \<^verbatim>\<open>Object.prototype.hasOwnProperty.call(value, key)\<close>: it throws a \<^verbatim>\<open>TypeError\<close> on
  \<^verbatim>\<open>undefined\<close> and \<^verbatim>\<open>null\<close>.
\<close>

definition hasOwnProperty :: "jsval \<Rightarrow> string \<Rightarrow> bool throws" where
  "hasOwnProperty v key =
     (if v = JUndefined \<or> v = JNull then Inl ''Cannot convert undefined or null to object''
      else Inr (key \<in> set (map fst (own_properties v))))"

text \<open>The loop of \<^verbatim>\<open>Struct\<close>'s \<^verbatim>\<open>encode\<close> over \<^verbatim>\<open>Object.keys(validators)\<close>.\<close>

fun Struct_encode_loop ::
  "(string \<times> Schema) list \<Rightarrow> jsval \<Rightarrow> (string \<times> jsval) list \<Rightarrow> (string \<times> jsval) list throws" where
  "Struct_encode_loop [] v result = Inr result"
| "Struct_encode_loop ((key, validator) # rest) v result =
     (case hasOwnProperty v key of
        Inl e \<Rightarrow> Inl e
      | Inr False \<Rightarrow> Struct_encode_loop rest v result
      | Inr True \<Rightarrow>
          (let propertyValue = get_prop v key in
           if propertyValue \<noteq> JUndefined
           then (case encode validator propertyValue of
                   Inl e \<Rightarrow> Inl e
                 | Inr enc \<Rightarrow> Struct_encode_loop rest v (set_prop result key enc))
           else Struct_encode_loop rest v result))"

definition Struct_encode :: "(string \<times> Schema) list \<Rightarrow> jsval \<Rightarrow> jsval throws" where
  "Struct_encode validators v =
     (case Struct_encode_loop validators v [] of Inl e \<Rightarrow> Inl e | Inr result \<Rightarrow> Inr (JObj result))"

text \<open>\<^verbatim>\<open>Array.prototype.join\<close> on an array of strings.\<close>

fun join :: "string \<Rightarrow> string list \<Rightarrow> string" where
  "join sep [] = []"
| "join sep [x] = x"
| "join sep (x # y # ys) = x @ sep @ join sep (y # ys)"

text \<open>
  The formatting callback of \<^verbatim>\<open>make\<close> in \<^verbatim>\<open>Struct\<close> and \<^verbatim>\<open>List\<close>:
  \<^verbatim>\<open>pathStr = err.path ? err.path.join(".") : ""\<close>, then
  \<^verbatim>\<open>`${pathStr ? pathStr + ": " : ""}${err.message}`\<close>.
\<close>

definition format_error :: "ValidationError \<Rightarrow> string" where
  "format_error err =
     (let pathStr = (case path err of None \<Rightarrow> [] | Some p \<Rightarrow> join ''.'' p)
      in (if pathStr \<noteq> [] then pathStr @ '': '' else []) @ message err)"

definition Struct :: "(string \<times> Schema) list \<Rightarrow> Schema" where
  "Struct validators =
     \<lparr> Encoded = JNull,
       Decoded = JNull,
       decode = Struct_decode validators,
       encode = Struct_encode validators,
       make_schema = (\<lambda>data.
         case Struct_decode validators data of
           Left l \<Rightarrow> Inl (''Validation failed: '' @ join '', '' (map format_error l))
         | Right r \<Rightarrow> Inr r) \<rparr>"

definition String :: Schema where
  "String = makePrimitive (\<lambda>a. typeof a = ''string'') ''string'' None"

definition Number :: Schema where
  "Number = makePrimitive (\<lambda>a. typeof a = ''number'') ''number'' None"

definition Boolean :: Schema where
  "Boolean = makePrimitive (\<lambda>a. typeof a = ''boolean'') ''boolean'' None"

definition True_schema :: Schema where
  "True_schema = makePrimitive (\<lambda>a. typeof a = ''boolean'' \<and> a = JBool True) ''true'' None"

definition False_schema :: Schema where
  "False_schema = makePrimitive (\<lambda>a. typeof a = ''boolean'' \<and> a = JBool False) ''boolean'' None"

definition Null :: Schema where
  "Null = makePrimitive (\<lambda>a. a = JNull) ''null'' None"

definition Undefined :: Schema where
  "Undefined = makePrimitive (\<lambda>a. a = JUndefined) ''undefined'' None"

subsection \<open>Literal\<close>

text \<open>
  Strict equality \<^verbatim>\<open>===\<close>. Two primitive values are strictly equal when they are the
  same value. An object or an array is strictly equal only to itself (the same
  reference); values carry no reference here, and a decoded input is never the object
  a schema was built from, so the comparison is false for them. A built-in function is
  the same function wherever it is read.
\<close>

fun strict_equals :: "jsval \<Rightarrow> jsval \<Rightarrow> bool" where
  "strict_equals (JArr xs) b = False"
| "strict_equals (JObj ps) b = False"
| "strict_equals a b = (a = b)"

text \<open>
  \<^verbatim>\<open>JSON.stringify\<close>: \<open>None\<close> is the result \<^verbatim>\<open>undefined\<close>, which a function gives
  too. A string is quoted, with the quote, the backslash and the control characters
  escaped.
\<close>

definition hex_char :: "nat \<Rightarrow> char" where
  "hex_char d = ''0123456789abcdef'' ! d"

definition escape_char :: "char \<Rightarrow> string" where
  "escape_char c =
     (if c = CHR 0x22 then [CHR 0x5C, CHR 0x22]
      else if c = CHR 0x5C then [CHR 0x5C, CHR 0x5C]
      else if c = CHR 0x08 then [CHR 0x5C, CHR ''b'']
      else if c = CHR 0x0C then [CHR 0x5C, CHR ''f'']
      else if c = CHR 0x0A then [CHR 0x5C, CHR ''n'']
      else if c = CHR 0x0D then [CHR 0x5C, CHR ''r'']
      else if c = CHR 0x09 then [CHR 0x5C, CHR ''t'']
      else if (of_char c :: nat) < 32
        then [CHR 0x5C, CHR ''u'', CHR ''0'', CHR ''0'',
              hex_char ((of_char c :: nat) div 16), hex_char ((of_char c :: nat) mod 16)]
      else [c])"

definition quote :: "string \<Rightarrow> string" where
  "quote s = [CHR 0x22] @ concat (map escape_char s) @ [CHR 0x22]"

fun JSON_stringify :: "jsval \<Rightarrow> string option"
  and stringify_elements :: "jsval list \<Rightarrow> string list"
  and stringify_members :: "(string \<times> jsval) list \<Rightarrow> string list" where
  "JSON_stringify JUndefined = None"
| "JSON_stringify JNull = Some ''null''"
| "JSON_stringify (JBool b) = Some (if b then ''true'' else ''false'')"
| "JSON_stringify (JNum n) = Some (show_int n)"
| "JSON_stringify (JStr s) = Some (quote s)"
| "JSON_stringify (JArr xs) = Some (''['' @ join '','' (stringify_elements xs) @ '']'')"
| "JSON_stringify (JObj ps) = Some (''{'' @ join '','' (stringify_members ps) @ ''}'')"
| "JSON_stringify (JFun f) = None"
| "stringify_elements [] = []"
| "stringify_elements (x # xs) =
     (case JSON_stringify x of None \<Rightarrow> ''null'' | Some s \<Rightarrow> s) # stringify_elements xs"
| "stringify_members [] = []"
| "stringify_members ((k, v) # ps) =
     (case JSON_stringify v of
        None \<Rightarrow> stringify_members ps
      | Some s \<Rightarrow> (quote k @ '':'' @ s) # stringify_members ps)"

text \<open>The text \<^verbatim>\<open>${JSON.stringify(v)}\<close> inside a template literal.\<close>

definition stringified :: "jsval \<Rightarrow> string" where
  "stringified v = (case JSON_stringify v of None \<Rightarrow> ''undefined'' | Some s \<Rightarrow> s)"

definition Literal :: "jsval \<Rightarrow> Schema" where
  "Literal literal =
     \<lparr> Encoded = literal,
       Decoded = literal,
       decode = (\<lambda>data.
         if strict_equals data literal then Right literal
         else Left [\<lparr> path = None,
                      code = ''invalid_literal'',
                      message = ''Expected '' @ stringified literal @ '', received '' @ stringified data,
                      input = data \<rparr>]),
       encode = (\<lambda>v.
         if \<not> strict_equals v literal
         then Inl (''Cannot encode: Expected '' @ stringified literal @ '', received '' @ stringified v)
         else Inr v),
       make_schema = (\<lambda>data.
         if \<not> strict_equals data literal
         then Inl (''Validation failed: Expected '' @ stringified literal @ '', received ''
                     @ stringified data)
         else Inr literal) \<rparr>"

subsection \<open>transform\<close>

text \<open>
  The two conversion functions are the caller's; either may throw, and the message of
  what it throws is the left summand of its result.
\<close>

definition transform_decode ::
  "Schema \<Rightarrow> (jsval \<Rightarrow> jsval throws) \<Rightarrow> jsval \<Rightarrow> jsval Validation" where
  "transform_decode schema transformer data =
     (case decode schema data of
        Left l \<Rightarrow> Left l
      | Right r \<Rightarrow>
          (case transformer r of
             Inr b \<Rightarrow> Right b
           | Inl m \<Rightarrow> Left [\<lparr> path = None,
                               code = ''transform_error'',
                               message = ''Transformation error: '' @ m,
                               input = r \<rparr>]))"

definition transform ::
  "Schema \<Rightarrow> (jsval \<Rightarrow> jsval throws) \<Rightarrow> (jsval \<Rightarrow> jsval throws) \<Rightarrow> Schema" where
  "transform schema transformer reverseTransformer =
     \<lparr> Encoded = Encoded schema,
       Decoded = JNull,
       decode = transform_decode schema transformer,
       encode = (\<lambda>v.
         case reverseTransformer v of
           Inl m \<Rightarrow> Inl (''Encoding error: '' @ m)
         | Inr a \<Rightarrow> (case encode schema a of
                       Inl m \<Rightarrow> Inl (''Encoding error: '' @ m)
                     | Inr i \<Rightarrow> Inr i)),
       make_schema = (\<lambda>data.
         case transform_decode schema transformer data of
           Left l \<Rightarrow> Inl (''Validation failed: '' @ join '', '' (map message l))
         | Right r \<Rightarrow> Inr r) \<rparr>"

subsection \<open>List\<close>

fun elements :: "jsval \<Rightarrow> jsval list" where
  "elements (JArr xs) = xs"
| "elements v = []"

text \<open>
  The loop \<^verbatim>\<open>for (let i = 0; i < data.length; i++)\<close> of \<^verbatim>\<open>List\<close>'s \<^verbatim>\<open>decode\<close>, on the
  elements from index \<open>i\<close> on, with the mutable locals \<^verbatim>\<open>results\<close> and \<^verbatim>\<open>errors\<close>.
\<close>

fun List_decode_loop ::
  "Schema \<Rightarrow> jsval list \<Rightarrow> nat \<Rightarrow> jsval list \<Rightarrow> ValidationError list
     \<Rightarrow> jsval list \<times> ValidationError list" where
  "List_decode_loop itemSchema [] i results errors = (results, errors)"
| "List_decode_loop itemSchema (item # rest) i results errors =
     (case decode itemSchema item of
        Right r \<Rightarrow> List_decode_loop itemSchema rest (Suc i) (results @ [r]) errors
      | Left l \<Rightarrow>
          List_decode_loop itemSchema rest (Suc i) results (errors @ map (with_key (show_nat i)) l))"

definition List_decode :: "Schema \<Rightarrow> jsval \<Rightarrow> jsval Validation" where
  "List_decode itemSchema data =
     (if \<not> isArray data
      then Left [\<lparr> path = None,
                   code = ''invalid_type'',
                   message = ''Expected array, received '' @ typeof data,
                   input = data \<rparr>]
      else (case List_decode_loop itemSchema (elements data) 0 [] [] of
              (results, errors) \<Rightarrow>
                if length errors > 0 then Left errors else Right (JArr results)))"

text \<open>\<^verbatim>\<open>value.map((item) => itemSchema.encode(item))\<close>: the first throw ends the map.\<close>

fun map_throws :: "('a \<Rightarrow> 'b throws) \<Rightarrow> 'a list \<Rightarrow> 'b list throws" where
  "map_throws f [] = Inr []"
| "map_throws f (x # xs) =
     (case f x of
        Inl e \<Rightarrow> Inl e
      | Inr y \<Rightarrow> (case map_throws f xs of Inl e \<Rightarrow> Inl e | Inr ys \<Rightarrow> Inr (y # ys)))"

definition List_encode :: "Schema \<Rightarrow> jsval \<Rightarrow> jsval throws" where
  "List_encode itemSchema v =
     (if isArray v
      then (case map_throws (encode itemSchema) (elements v) of
              Inl e \<Rightarrow> Inl e
            | Inr ys \<Rightarrow> Inr (JArr ys))
      else Inl ''value.map is not a function'')"

definition List :: "Schema \<Rightarrow> Schema" where
  "List itemSchema =
     \<lparr> Encoded = JArr [],
       Decoded = JArr [],
       decode = List_decode itemSchema,
       encode = List_encode itemSchema,
       make_schema = (\<lambda>data.
         case List_decode itemSchema data of
           Left l \<Rightarrow> Inl (''Validation failed: '' @ join '', '' (map format_error l))
         | Right r \<Rightarrow> Inr r) \<rparr>"

section \<open>Schemas built from the constructors\<close>






text \<open>
  What one declared field contributes to the errors of a struct, in the words of the
  decode contract: \<^verbatim>\<open>required\<close> when the field is absent, the child's errors under the
  field name when the child fails, nothing otherwise.
\<close>

definition field_errors :: "jsval \<Rightarrow> string \<times> Schema \<Rightarrow> ValidationError list" where
  "field_errors obj field =
     (case field of (key, validator) \<Rightarrow>
        if get_prop obj key = JUndefined then [required_error key]
        else (case decode validator (get_prop obj key) of
                Left l \<Rightarrow> map (with_key key) l
              | Right r \<Rightarrow> []))"

text \<open>What the element at one index contributes to the errors of a list.\<close>

definition item_errors :: "Schema \<Rightarrow> nat \<times> jsval \<Rightarrow> ValidationError list" where
  "item_errors itemSchema indexed =
     (case indexed of (i, item) \<Rightarrow>
        (case decode itemSchema item of
           Left l \<Rightarrow> map (with_key (show_nat i)) l
         | Right r \<Rightarrow> []))"

section \<open>Option (option.ts, in src/index.ts)\<close>

text \<open>
  The tagged union \<^verbatim>\<open>Some<A> | None\<close>. The function \<^verbatim>\<open>Some\<close> of the source builds the
  tagged object from its argument and does nothing else: it is the constructor
  \<open>Some_opt\<close>.
\<close>

datatype Option = Some_opt jsval | None_opt

fun Option_value :: "Option \<Rightarrow> jsval" where
  "Option_value (Some_opt v) = v"
| "Option_value None_opt = JUndefined"

text \<open>The test \<^verbatim>\<open>v == null\<close>, true of \<^verbatim>\<open>null\<close> and \<^verbatim>\<open>undefined\<close> only.\<close>

definition loosely_null :: "jsval \<Rightarrow> bool" where
  "loosely_null v = (v = JNull \<or> v = JUndefined)"

definition fromNullable :: "jsval \<Rightarrow> Option" where
  "fromNullable v = (if loosely_null v then None_opt else Some_opt v)"

fun isSome :: "Option \<Rightarrow> bool" where
  "isSome (Some_opt v) = True"
| "isSome None_opt = False"

fun isNone :: "Option \<Rightarrow> bool" where
  "isNone None_opt = True"
| "isNone (Some_opt v) = False"

definition bimap :: "Option \<Rightarrow> (jsval \<Rightarrow> jsval) \<Rightarrow> Option" where
  "bimap option fn =
     (if isNone option then option
      else (let b = fn (Option_value option) in
            if loosely_null b then None_opt else Some_opt b))"

definition Option_map :: "(jsval \<Rightarrow> jsval) \<Rightarrow> Option \<Rightarrow> Option" where
  "Option_map fn o' = bimap o' fn"

definition Option_flatMap :: "(jsval \<Rightarrow> Option) \<Rightarrow> Option \<Rightarrow> Option" where
  "Option_flatMap fn o' = (if isSome o' then fn (Option_value o') else o')"

definition getOrElse :: "Option \<Rightarrow> (unit \<Rightarrow> jsval) \<Rightarrow> jsval" where
  "getOrElse a orElse = (if isNone a then orElse () else Option_value a)"

section \<open>The effect wrapper (task.ts)\<close>

text \<open>
  A promise is represented by the way it settles: fulfilled with a value, rejected with
  a thrown value, or never settled. Calling an operation and awaiting its promise is a
  function of the world: the state of everything the operation reads and changes (the
  console, the network, a store). It takes the world at the moment the operation begins
  and gives the outcome with the world at the moment the promise settles.
\<close>

datatype ('x, 'a) outcome = Fulfilled 'a | Rejected 'x | Pending

text \<open>
  The call \<^verbatim>\<open>f(runtime)\<close> of the operation given to \<^verbatim>\<open>from\<close>: it throws before returning
  a promise, or returns a promise.
\<close>

datatype ('x, 'a) invocation = Throws 'x | Returns "('x, 'a) outcome"

type_synonym ('w, 'x, 'l, 'r) TaskEither = "'w \<Rightarrow> ('x, ('l, 'r) Either) outcome \<times> 'w"

type_synonym ('e, 'w, 'x, 'l, 'r) ReaderTaskEither = "'e \<Rightarrow> ('w, 'x, 'l, 'r) TaskEither"

text \<open>
  \<^verbatim>\<open>map\<close>: the callback is called on the success value, outside any \<^verbatim>\<open>try\<close>; what it
  throws is the left summand of its result.
\<close>

definition Task_map ::
  "('r \<Rightarrow> 'w \<Rightarrow> ('x + 'b) \<times> 'w) \<Rightarrow> ('e, 'w, 'x, 'l, 'r) ReaderTaskEither
     \<Rightarrow> ('e, 'w, 'x, 'l, 'b) ReaderTaskEither" where
  "Task_map f readerTaskEither = (\<lambda>runtime w.
     case readerTaskEither runtime w of
       (Fulfilled (Right r), w') \<Rightarrow>
         (case f r w' of
            (Inr b, w'') \<Rightarrow> (Fulfilled (Right b), w'')
          | (Inl e, w'') \<Rightarrow> (Rejected e, w''))
     | (Fulfilled (Left l), w') \<Rightarrow> (Fulfilled (Left l), w')
     | (Rejected e, w') \<Rightarrow> (Rejected e, w')
     | (Pending, w') \<Rightarrow> (Pending, w'))"

definition fork ::
  "'e \<Rightarrow> ('e, 'w, 'x, 'l, 'r) ReaderTaskEither \<Rightarrow> 'w \<Rightarrow> ('x, ('l, 'r) Either) outcome \<times> 'w" where
  "fork runtime readerTaskEither = readerTaskEither runtime"

definition Task_flatMap ::
  "('r \<Rightarrow> 'w \<Rightarrow> ('x + ('e, 'w, 'x, 'l, 'b) ReaderTaskEither) \<times> 'w)
     \<Rightarrow> ('e, 'w, 'x, 'l, 'r) ReaderTaskEither \<Rightarrow> ('e, 'w, 'x, 'l, 'b) ReaderTaskEither" where
  "Task_flatMap f readerTaskEither = (\<lambda>runtime w.
     case readerTaskEither runtime w of
       (Fulfilled (Right r), w') \<Rightarrow>
         (case f r w' of
            (Inr next, w'') \<Rightarrow> next runtime w''
          | (Inl e, w'') \<Rightarrow> (Rejected e, w''))
     | (Fulfilled (Left l), w') \<Rightarrow> (Fulfilled (Left l), w')
     | (Rejected e, w') \<Rightarrow> (Rejected e, w')
     | (Pending, w') \<Rightarrow> (Pending, w'))"

definition Task_from ::
  "('e \<Rightarrow> 'w \<Rightarrow> ('x, 'r) invocation \<times> 'w) \<Rightarrow> ('e, 'w, 'x, 'x, 'r) ReaderTaskEither" where
  "Task_from f = (\<lambda>runtime w.
     case f runtime w of
       (Returns (Fulfilled computation), w') \<Rightarrow> (Fulfilled (Right computation), w')
     | (Returns (Rejected e), w') \<Rightarrow> (Fulfilled (Left e), w')
     | (Throws e, w') \<Rightarrow> (Fulfilled (Left e), w')
     | (Returns Pending, w') \<Rightarrow> (Pending, w'))"

section \<open>Inputs of the worked examples\<close>

text \<open>
  Operations for the effect wrapper, on a world that is the list of lines written so
  far, with a runtime that is the name of the caller: one fulfils after writing a line,
  one returns a promise that rejects, one throws before returning a promise.
\<close>

definition op_fulfils :: "string \<Rightarrow> string list \<Rightarrow> (string, int) invocation \<times> string list" where
  "op_fulfils runtime w = (Returns (Fulfilled 10), w @ [runtime @ '': fetched''])"

definition op_rejects :: "string \<Rightarrow> string list \<Rightarrow> (string, int) invocation \<times> string list" where
  "op_rejects runtime w = (Returns (Rejected ''offline''), w @ [runtime @ '': tried''])"

definition op_throws :: "string \<Rightarrow> string list \<Rightarrow> (string, int) invocation \<times> string list" where
  "op_throws runtime w = (Throws ''bad url'', w)"

text \<open>An operation that writes the value it is given and fulfils with its double.\<close>

definition op_double :: "int \<Rightarrow> string \<Rightarrow> string list \<Rightarrow> (string, int) invocation \<times> string list" where
  "op_double r runtime w = (Returns (Fulfilled (2 * r)), w @ [runtime @ '': doubling''])"

text \<open>The callback given to \<^verbatim>\<open>flatMap\<close>: it writes a line and wraps \<open>op_double\<close>.\<close>

definition then_double ::
  "int \<Rightarrow> string list \<Rightarrow> (string + (string, string list, string, string, int) ReaderTaskEither) \<times> string list" where
  "then_double r w = (Inr (Task_from (op_double r)), w @ [''callback called''])"

text \<open>A callback for \<^verbatim>\<open>map\<close> that throws.\<close>

definition parse_fails :: "int \<Rightarrow> string list \<Rightarrow> (string + int) \<times> string list" where
  "parse_fails r w = (Inl ''not a todo'', w)"








section \<open>Decoding a struct or a list: all errors are collected\<close>

lemma decode_Struct [simp]: "decode (Struct vs) = Struct_decode vs"
  by (simp add: Struct_def)

lemma decode_List [simp]: "decode (List s) = List_decode s"
  by (simp add: List_def)

lemma Struct_decode_loop_errors:
  "snd (Struct_decode_loop vs obj result errors) = errors @ concat (map (field_errors obj) vs)"
  by (induction vs arbitrary: result errors)
     (auto simp: field_errors_def Let_def split: Either.splits)

lemma List_decode_loop_errors:
  "snd (List_decode_loop s xs i results errors)
     = errors @ concat (map (item_errors s) (zip [i..<i + length xs] xs))"
proof (induction xs arbitrary: i results errors)
  case Nil
  then show ?case by simp
next
  case (Cons x xs)
  have "[i..<i + length (x # xs)] = i # [Suc i..<Suc i + length xs]"
    by (simp add: upt_rec)
  then show ?case using Cons.IH
    by (simp add: item_errors_def split: Either.splits)
qed

lemma Struct_decode_object:
  assumes "typeof data = ''object''" and "data \<noteq> JNull"
  shows "Struct_decode vs data =
           (if concat (map (field_errors data) vs) = []
            then Right (JObj (fst (Struct_decode_loop vs data [] [])))
            else Left (concat (map (field_errors data) vs)))"
proof -
  obtain result errors where l: "Struct_decode_loop vs data [] [] = (result, errors)"
    by (cases "Struct_decode_loop vs data [] []")
  have "errors = concat (map (field_errors data) vs)"
    using Struct_decode_loop_errors [of vs data "[]" "[]"] l by simp
  with l assms show ?thesis by (simp add: Struct_decode_def)
qed

lemma List_decode_array:
  "List_decode s (JArr xs) =
     (if concat (map (item_errors s) (zip [0..<length xs] xs)) = []
      then Right (JArr (fst (List_decode_loop s xs 0 [] [])))
      else Left (concat (map (item_errors s) (zip [0..<length xs] xs))))"
proof -
  obtain results errors where l: "List_decode_loop s xs 0 [] [] = (results, errors)"
    by (cases "List_decode_loop s xs 0 [] []")
  have "errors = concat (map (item_errors s) (zip [0..<length xs] xs))"
    using List_decode_loop_errors [of s xs 0 "[]" "[]"] l by simp
  with l show ?thesis by (simp add: List_decode_def)
qed

lemma concat_map_split:
  assumes "x \<in> set xs"
  shows "\<exists>before after. concat (map f xs) = before @ f x @ after"
proof -
  from assms obtain ys zs where "xs = ys @ x # zs" by (auto simp: in_set_conv_decomp)
  then have "concat (map f xs) = concat (map f ys) @ f x @ concat (map f zs)" by simp
  then show ?thesis by blast
qed


text \<open>
  On a non-null object input, \<^verbatim>\<open>Struct\<close>'s \<^verbatim>\<open>decode\<close> goes through every declared field
  and never stops at a failing one: the errors it returns are the contributions of all
  the fields, one after the other, and it succeeds exactly when there is none. A declared
  field that reads as \<^verbatim>\<open>undefined\<close> on the input contributes the one error with code
  \<^verbatim>\<open>required\<close> and the path made of the field name.
\<close>

lemma Struct_decode_collects_field_errors:
  assumes "typeof data = ''object''" and "data \<noteq> JNull"
  shows
    "(concat (map (field_errors data) validators) \<noteq> [] \<longrightarrow>
        decode (Struct validators) data = Left (concat (map (field_errors data) validators)))
     \<and> (concat (map (field_errors data) validators) = [] \<longrightarrow>
        (\<exists>result. decode (Struct validators) data = Right (JObj result)))
     \<and> (isRight (decode (Struct validators) data)
          \<longleftrightarrow> concat (map (field_errors data) validators) = [])
     \<and> (\<forall>(key, validator) \<in> set validators. get_prop data key = JUndefined \<longrightarrow>
          field_errors data (key, validator) = [required_error key]
          \<and> path (required_error key) = Some [key]
          \<and> code (required_error key) = ''required''
          \<and> (\<exists>errors. decode (Struct validators) data = Left errors
                \<and> required_error key \<in> set errors))"
proof -
  let ?all = "concat (map (field_errors data) validators)"
  note d = Struct_decode_object [OF assms, of validators]
  have 1: "?all \<noteq> [] \<longrightarrow> decode (Struct validators) data = Left ?all"
    using d by simp
  have 2: "?all = [] \<longrightarrow> (\<exists>result. decode (Struct validators) data = Right (JObj result))"
    using d by simp
  have 3: "isRight (decode (Struct validators) data) \<longleftrightarrow> ?all = []"
    using d by simp
  have 4: "field_errors data (key, validator) = [required_error key]
           \<and> path (required_error key) = Some [key]
           \<and> code (required_error key) = ''required''
           \<and> (\<exists>errors. decode (Struct validators) data = Left errors
                 \<and> required_error key \<in> set errors)"
    if m: "(key, validator) \<in> set validators" and u: "get_prop data key = JUndefined"
    for key validator
  proof -
    have f: "field_errors data (key, validator) = [required_error key]"
      using u by (simp add: field_errors_def)
    then have "required_error key \<in> set ?all"
      using m by force
    moreover from this have "?all \<noteq> []" by (cases ?all) simp_all
    ultimately show ?thesis using f 1 by (simp add: required_error_def)
  qed
  from 1 2 3 4 show ?thesis by blast
qed

text \<open>
  Claim C1. \<^verbatim>\<open>Struct\<close>'s \<^verbatim>\<open>decode\<close> does validate every declared field and return all the
  errors together (the lemma above), but a declared field that is missing from the input
  does not always contribute a \<^verbatim>\<open>required\<close> error. The loop reads \<^verbatim>\<open>obj[key]\<close> without
  asking whether the input has the key itself, so a missing field that has the name of an
  inherited member reads as that member. For the fields \<^verbatim>\<open>constructor: String\<close> and
  \<^verbatim>\<open>name: String\<close>, decoded on the empty object, both fields are missing: the claim gives
  two \<^verbatim>\<open>required\<close> errors, and the code gives \<^verbatim>\<open>invalid_type\<close>, "Expected string, received
  function", for \<^verbatim>\<open>constructor\<close> and \<^verbatim>\<open>required\<close> for \<^verbatim>\<open>name\<close>.
\<close>

theorem Struct_decode_missing_field_reads_prototype:
  "hasOwnProperty (JObj []) ''constructor'' = Inr False
   \<and> hasOwnProperty (JObj []) ''name'' = Inr False
   \<and> decode (Struct [(''constructor'', String), (''name'', String)]) (JObj [])
       = Left [\<lparr> path = Some [''constructor''], code = ''invalid_type'',
                  message = ''Expected string, received function'', input = JFun ''Object'' \<rparr>,
               required_error ''name'']
   \<and> decode (Struct [(''constructor'', String), (''name'', String)]) (JObj [])
       \<noteq> Left [required_error ''constructor'', required_error ''name'']"
  by code_simp

section \<open>Paths of nested errors\<close>

lemma path_with_key [simp]: "path (with_key key err) = Some (key # path_or_empty err)"
  by (simp add: with_key_def)

lemma field_errors_have_path:
  "e \<in> set (field_errors data field) \<Longrightarrow> path e \<noteq> None"
  by (cases field) (auto simp: field_errors_def required_error_def split: if_splits Either.splits)

lemma item_in_zip:
  assumes "i < length xs"
  shows "(i, xs ! i) \<in> set (zip [0..<length xs] xs)"
  using assms by (force simp: in_set_zip)

text \<open>
  Claim C2. The error built for a failing struct field or list element carries the path
  of the nested error with the field name, or the index written in decimal, put in
  front of it (an absent path counts as the empty one). Whenever the child schema of a
  present field, or of the element at an index, fails with some errors, those errors
  with the key put in front of their paths are in the errors of the enclosing decode,
  in their order. The struct \<^verbatim>\<open>{a: {b: Number}}\<close> on \<^verbatim>\<open>{a: {b: "x"}}\<close> gives one error
  with path \<^verbatim>\<open>["a", "b"]\<close>, and the list of numbers on \<^verbatim>\<open>[1, "x", 3]\<close> gives one error
  with path \<^verbatim>\<open>["1"]\<close>.
\<close>

theorem nested_error_paths_are_prepended:
  "path (with_key key err) = Some (key # path_or_empty err)
   \<and> (path err = Some p \<longrightarrow> path (with_key key err) = Some (key # p))
   \<and> (typeof data = ''object'' \<and> data \<noteq> JNull \<and> (field, validator) \<in> set validators
        \<and> get_prop data field \<noteq> JUndefined
        \<and> decode validator (get_prop data field) = Left nested \<and> nested \<noteq> []
      \<longrightarrow> (\<exists>before after. decode (Struct validators) data
                  = Left (before @ map (with_key field) nested @ after)))
   \<and> (i < length xs \<and> decode itemSchema (xs ! i) = Left nested \<and> nested \<noteq> []
      \<longrightarrow> (\<exists>before after. decode (List itemSchema) (JArr xs)
                  = Left (before @ map (with_key (show_nat i)) nested @ after)))
   \<and> decode (Struct [(''a'', Struct [(''b'', Number)])]) (JObj [(''a'', JObj [(''b'', JStr ''x'')])])
       = Left [\<lparr> path = Some [''a'', ''b''], code = ''invalid_type'',
                  message = ''Expected number, received string'', input = JStr ''x'' \<rparr>]
   \<and> decode (List Number) (JArr [JNum 1, JStr ''x'', JNum 3])
       = Left [\<lparr> path = Some [''1''], code = ''invalid_type'',
                  message = ''Expected number, received string'', input = JStr ''x'' \<rparr>]"
proof -
  have 1: "path (with_key key err) = Some (key # path_or_empty err)"
    by simp
  have 2: "path err = Some p \<longrightarrow> path (with_key key err) = Some (key # p)"
    by (simp add: path_or_empty_def)
  have 3: "\<exists>before after. decode (Struct validators) data
             = Left (before @ map (with_key field) nested @ after)"
    if obj: "typeof data = ''object''" "data \<noteq> JNull"
      and mem: "(field, validator) \<in> set validators"
      and present: "get_prop data field \<noteq> JUndefined"
      and fails: "decode validator (get_prop data field) = Left nested"
      and nonempty: "nested \<noteq> []"
  proof -
    let ?all = "concat (map (field_errors data) validators)"
    have f: "field_errors data (field, validator) = map (with_key field) nested"
      using present fails by (simp add: field_errors_def)
    obtain before after where s: "?all = before @ map (with_key field) nested @ after"
      using concat_map_split [OF mem, of "field_errors data"] f by auto
    with nonempty have "?all \<noteq> []" by simp
    then have "decode (Struct validators) data = Left ?all"
      using Struct_decode_object [OF obj, of validators] by simp
    with s show ?thesis by auto
  qed
  have 4: "\<exists>before after. decode (List itemSchema) (JArr xs)
             = Left (before @ map (with_key (show_nat i)) nested @ after)"
    if inside: "i < length xs"
      and fails: "decode itemSchema (xs ! i) = Left nested"
      and nonempty: "nested \<noteq> []"
  proof -
    let ?all = "concat (map (item_errors itemSchema) (zip [0..<length xs] xs))"
    have f: "item_errors itemSchema (i, xs ! i) = map (with_key (show_nat i)) nested"
      using fails by (simp add: item_errors_def)
    obtain before after where s: "?all = before @ map (with_key (show_nat i)) nested @ after"
      using concat_map_split [OF item_in_zip [OF inside], of "item_errors itemSchema"] f by auto
    with nonempty have "?all \<noteq> []" by simp
    then have "decode (List itemSchema) (JArr xs) = Left ?all"
      using List_decode_array [of itemSchema xs] by simp
    with s show ?thesis by auto
  qed
  have 5: "decode (Struct [(''a'', Struct [(''b'', Number)])]) (JObj [(''a'', JObj [(''b'', JStr ''x'')])])
       = Left [\<lparr> path = Some [''a'', ''b''], code = ''invalid_type'',
                  message = ''Expected number, received string'', input = JStr ''x'' \<rparr>]"
    by (simp add: Struct_decode_def get_prop_def Number_def makePrimitive_def with_key_def
        path_or_empty_def)
  have 6: "decode (List Number) (JArr [JNum 1, JStr ''x'', JNum 3])
       = Left [\<lparr> path = Some [''1''], code = ''invalid_type'',
                  message = ''Expected number, received string'', input = JStr ''x'' \<rparr>]"
    by (simp add: List_decode_def Number_def makePrimitive_def with_key_def path_or_empty_def
        show_nat.simps digit_char_def)
  from 1 2 3 4 5 6 show ?thesis by blast
qed


text \<open>
  The theorem at the two inputs of the claim: the inner struct fails with one error of
  path \<^verbatim>\<open>["b"]\<close>, the element at index 1 fails with one error without a path.
\<close>

theorem nested_error_paths_are_prepended_witness:
  "path \<lparr> path = Some [''b''], code = ''invalid_type'',
           message = ''Expected number, received string'', input = JStr ''x'' \<rparr> = Some [''b'']
   \<and> path (with_key ''a'' \<lparr> path = Some [''b''], code = ''invalid_type'',
           message = ''Expected number, received string'', input = JStr ''x'' \<rparr>) = Some [''a'', ''b'']
   \<and> decode (Struct [(''b'', Number)]) (get_prop (JObj [(''a'', JObj [(''b'', JStr ''x'')])]) ''a'')
       = Left [\<lparr> path = Some [''b''], code = ''invalid_type'',
                  message = ''Expected number, received string'', input = JStr ''x'' \<rparr>]
   \<and> (\<exists>before after.
         decode (Struct [(''a'', Struct [(''b'', Number)])]) (JObj [(''a'', JObj [(''b'', JStr ''x'')])])
         = Left (before @ map (with_key ''a'')
               [\<lparr> path = Some [''b''], code = ''invalid_type'',
                   message = ''Expected number, received string'', input = JStr ''x'' \<rparr>] @ after))
   \<and> decode Number ([JNum 1, JStr ''x'', JNum 3] ! 1)
       = Left [\<lparr> path = None, code = ''invalid_type'',
                  message = ''Expected number, received string'', input = JStr ''x'' \<rparr>]
   \<and> (\<exists>before after.
         decode (List Number) (JArr [JNum 1, JStr ''x'', JNum 3])
         = Left (before @ map (with_key (show_nat 1))
               [\<lparr> path = None, code = ''invalid_type'',
                   message = ''Expected number, received string'', input = JStr ''x'' \<rparr>] @ after))"
proof -
  let ?inner = "\<lparr> path = Some [''b''], code = ''invalid_type'',
                   message = ''Expected number, received string'', input = JStr ''x'' \<rparr>"
  let ?leaf = "\<lparr> path = None, code = ''invalid_type'',
                   message = ''Expected number, received string'', input = JStr ''x'' \<rparr>"
  have h1: "decode (Struct [(''b'', Number)]) (get_prop (JObj [(''a'', JObj [(''b'', JStr ''x'')])]) ''a'')
       = Left [?inner]"
    by (simp add: Struct_decode_def get_prop_def Number_def makePrimitive_def with_key_def
        path_or_empty_def)
  have h2: "decode Number ([JNum 1, JStr ''x'', JNum 3] ! 1) = Left [?leaf]"
    by (simp add: Number_def makePrimitive_def)
  have h3: "get_prop (JObj [(''a'', JObj [(''b'', JStr ''x'')])]) ''a'' \<noteq> JUndefined"
    by (simp add: get_prop_def)
  note t = nested_error_paths_are_prepended
    [where key = "''a''" and err = ?inner and p = "[''b'']"
       and data = "JObj [(''a'', JObj [(''b'', JStr ''x'')])]" and field = "''a''"
       and validator = "Struct [(''b'', Number)]"
       and validators = "[(''a'', Struct [(''b'', Number)])]" and nested = "[?inner]"]
  note u = nested_error_paths_are_prepended
    [where i = 1 and xs = "[JNum 1, JStr ''x'', JNum 3]" and itemSchema = Number
       and nested = "[?leaf]"]
  have a: "\<exists>before after.
         decode (Struct [(''a'', Struct [(''b'', Number)])]) (JObj [(''a'', JObj [(''b'', JStr ''x'')])])
         = Left (before @ map (with_key ''a'') [?inner] @ after)"
    by (rule t [THEN conjunct2, THEN conjunct2, THEN conjunct1, THEN mp]) (use h1 h3 in simp)
  have b: "\<exists>before after.
         decode (List Number) (JArr [JNum 1, JStr ''x'', JNum 3])
         = Left (before @ map (with_key (show_nat 1)) [?leaf] @ after)"
    by (rule u [THEN conjunct2, THEN conjunct2, THEN conjunct2, THEN conjunct1, THEN mp])
       (use h2 in simp)
  have c: "path (with_key ''a'' ?inner) = Some [''a'', ''b'']"
    by (rule t [THEN conjunct2, THEN conjunct1, THEN mp]) simp
  from a b c h1 h2 show ?thesis by simp
qed

section \<open>Undeclared keys\<close>

lemma Struct_decode_loop_declared_only:
  assumes "\<forall>key \<in> set (map fst vs). get_prop obj' key = get_prop obj key"
  shows "Struct_decode_loop vs obj' result errors = Struct_decode_loop vs obj result errors"
  using assms
  by (induction vs arbitrary: result errors) (auto simp: Let_def split: Either.splits)

lemma keys_set_prop: "fst ` set (set_prop ps key v) = insert key (fst ` set ps)"
  by (induction ps key v rule: set_prop.induct) auto

lemma map_of_set_prop: "map_of (set_prop ps key v) = (map_of ps)(key \<mapsto> v)"
  by (induction ps key v rule: set_prop.induct) (auto simp: fun_eq_iff)

lemma get_prop_set_prop:
  "get_prop (JObj (set_prop ps key v)) k = (if k = key then v else get_prop (JObj ps) k)"
  by (simp add: get_prop_def map_of_set_prop)

lemma Struct_decode_loop_keys:
  "set (map fst (fst (Struct_decode_loop vs obj result errors)))
     \<subseteq> set (map fst result) \<union> set (map fst vs)"
proof (induction vs arbitrary: result errors)
  case Nil
  then show ?case by simp
next
  case (Cons field vs)
  obtain key validator where f: "field = (key, validator)" by (cases field)
  show ?case
  proof (cases "get_prop obj key = JUndefined")
    case True
    then show ?thesis using Cons.IH [of result "errors @ [required_error key]"] f
      by auto
  next
    case False
    show ?thesis
    proof (cases "decode validator (get_prop obj key)")
      case (Left l)
      then show ?thesis
        using Cons.IH [of result "errors @ map (with_key key) l"] f False by auto
    next
      case (Right r)
      then show ?thesis
        using Cons.IH [of "set_prop result key r" errors] f False
        by (auto simp: keys_set_prop)
    qed
  qed
qed

lemma field_errors_key:
  assumes "e \<in> set (field_errors data field)"
  shows "\<exists>rest. path e = Some (fst field # rest)"
  using assms
  by (cases field) (auto simp: field_errors_def required_error_def split: if_splits Either.splits)

text \<open>
  Claim C5. \<^verbatim>\<open>Struct\<close>'s \<^verbatim>\<open>decode\<close> reads the declared fields only: two objects that agree
  on every declared field decode to the same result, so adding a key that is not
  declared, or changing its value, changes neither the decoded value nor the errors.
  Every error returned has a path that starts with a declared field, and the decoded
  value has no own property of an undeclared name. \<^verbatim>\<open>Struct({a: String})\<close> on
  \<^verbatim>\<open>{a: "x", z: 1}\<close> succeeds with \<^verbatim>\<open>{a: "x"}\<close>.
\<close>

theorem Struct_decode_ignores_undeclared_keys:
  "(typeof data = ''object'' \<and> data \<noteq> JNull \<and> typeof data' = ''object'' \<and> data' \<noteq> JNull
      \<and> (\<forall>key \<in> set (map fst validators). get_prop data' key = get_prop data key)
    \<longrightarrow> decode (Struct validators) data' = decode (Struct validators) data)
   \<and> (extra \<notin> set (map fst validators)
    \<longrightarrow> decode (Struct validators) (JObj (set_prop ps extra v)) = decode (Struct validators) (JObj ps))
   \<and> (typeof data = ''object'' \<and> data \<noteq> JNull
      \<and> decode (Struct validators) data = Left errors \<and> e \<in> set errors
    \<longrightarrow> (\<exists>key rest. path e = Some (key # rest) \<and> key \<in> set (map fst validators)))
   \<and> (decode (Struct validators) data = Right decoded \<and> extra \<notin> set (map fst validators)
    \<longrightarrow> hasOwnProperty decoded extra = Inr False
        \<and> map_of (own_properties decoded) extra = None)
   \<and> decode (Struct [(''a'', String)]) (JObj [(''a'', JStr ''x''), (''z'', JNum 1)])
       = Right (JObj [(''a'', JStr ''x'')])"
proof -
  have same: "decode (Struct validators) y = decode (Struct validators) x"
    if "typeof x = ''object''" and "x \<noteq> JNull" and "typeof y = ''object''" and "y \<noteq> JNull"
      and "\<forall>key \<in> set (map fst validators). get_prop y key = get_prop x key"
    for x y
    using that Struct_decode_loop_declared_only [of validators y x "[]" "[]"]
    by (simp add: Struct_decode_def)
  have 2: "decode (Struct validators) (JObj (set_prop ps extra v)) = decode (Struct validators) (JObj ps)"
    if "extra \<notin> set (map fst validators)"
  proof (rule same)
    show "\<forall>key \<in> set (map fst validators).
            get_prop (JObj (set_prop ps extra v)) key = get_prop (JObj ps) key"
      using that by (auto simp: get_prop_set_prop)
  qed simp_all
  have 3: "\<exists>key rest. path e = Some (key # rest) \<and> key \<in> set (map fst validators)"
    if obj: "typeof data = ''object''" "data \<noteq> JNull"
      and l: "decode (Struct validators) data = Left errors" and e: "e \<in> set errors"
  proof -
    have "errors = concat (map (field_errors data) validators)"
      using Struct_decode_object [OF obj, of validators] l by (simp split: if_splits)
    with e obtain field where "field \<in> set validators" and "e \<in> set (field_errors data field)"
      by auto
    then show ?thesis using field_errors_key [of e data field] by force
  qed
  have 4: "hasOwnProperty decoded extra = Inr False
           \<and> map_of (own_properties decoded) extra = None"
    if r: "decode (Struct validators) data = Right decoded"
      and x: "extra \<notin> set (map fst validators)"
  proof -
    have d: "decoded = JObj (fst (Struct_decode_loop validators data [] []))"
      using r by (auto simp: Struct_decode_def split: if_splits prod.splits)
    have "set (map fst (fst (Struct_decode_loop validators data [] []))) \<subseteq> set (map fst validators)"
      using Struct_decode_loop_keys [of validators data "[]" "[]"] by simp
    with x have n: "extra \<notin> set (map fst (fst (Struct_decode_loop validators data [] [])))"
      by blast
    then have "map_of (fst (Struct_decode_loop validators data [] [])) extra = None"
      by (simp add: map_of_eq_None_iff)
    with n d show ?thesis by (simp add: hasOwnProperty_def)
  qed
  have 5: "decode (Struct [(''a'', String)]) (JObj [(''a'', JStr ''x''), (''z'', JNum 1)])
       = Right (JObj [(''a'', JStr ''x'')])"
    by (simp add: Struct_decode_def get_prop_def String_def makePrimitive_def)
  from same [of data data'] 2 3 4 5 show ?thesis by blast
qed

text \<open>
  The theorem at the input of the claim: \<^verbatim>\<open>{a: "x", z: 1}\<close> is \<^verbatim>\<open>{a: "x"}\<close> with the
  undeclared key \<^verbatim>\<open>z\<close> added, it decodes as \<^verbatim>\<open>{a: "x"}\<close> does, and the decoded value has
  no \<^verbatim>\<open>z\<close>; on \<^verbatim>\<open>{z: 1}\<close> the only error is about the declared field \<^verbatim>\<open>a\<close>.
\<close>

theorem Struct_decode_ignores_undeclared_keys_witness:
  "''z'' \<notin> set (map fst [(''a'', String)])
   \<and> decode (Struct [(''a'', String)]) (JObj (set_prop [(''a'', JStr ''x'')] ''z'' (JNum 1)))
       = decode (Struct [(''a'', String)]) (JObj [(''a'', JStr ''x'')])
   \<and> decode (Struct [(''a'', String)]) (JObj [(''a'', JStr ''x'')]) = Right (JObj [(''a'', JStr ''x'')])
   \<and> hasOwnProperty (JObj [(''a'', JStr ''x'')]) ''z'' = Inr False
   \<and> get_prop (JObj [(''z'', JNum 1), (''a'', JStr ''x'')]) ''a'' = get_prop (JObj [(''a'', JStr ''x'')]) ''a''
   \<and> decode (Struct [(''a'', String)]) (JObj [(''z'', JNum 1), (''a'', JStr ''x'')])
       = decode (Struct [(''a'', String)]) (JObj [(''a'', JStr ''x'')])
   \<and> decode (Struct [(''a'', String)]) (JObj [(''z'', JNum 1)]) = Left [required_error ''a'']
   \<and> (\<exists>key rest. path (required_error ''a'') = Some (key # rest)
          \<and> key \<in> set (map fst [(''a'', String)]))"
proof -
  note t = Struct_decode_ignores_undeclared_keys
    [where validators = "[(''a'', String)]" and extra = "''z''" and ps = "[(''a'', JStr ''x'')]"
       and v = "JNum 1" and data = "JObj [(''a'', JStr ''x'')]"
       and data' = "JObj [(''z'', JNum 1), (''a'', JStr ''x'')]"
       and decoded = "JObj [(''a'', JStr ''x'')]"]
  note u = Struct_decode_ignores_undeclared_keys
    [where validators = "[(''a'', String)]" and data = "JObj [(''z'', JNum 1)]"
       and errors = "[required_error ''a'']" and e = "required_error ''a''"]
  have n: "''z'' \<notin> set (map fst [(''a'', String)])" by simp
  have d: "decode (Struct [(''a'', String)]) (JObj [(''a'', JStr ''x'')]) = Right (JObj [(''a'', JStr ''x'')])"
    by (simp add: Struct_decode_def get_prop_def String_def makePrimitive_def)
  have a: "decode (Struct [(''a'', String)]) (JObj (set_prop [(''a'', JStr ''x'')] ''z'' (JNum 1)))
       = decode (Struct [(''a'', String)]) (JObj [(''a'', JStr ''x'')])"
    by (rule t [THEN conjunct2, THEN conjunct1, THEN mp]) (rule n)
  have b: "hasOwnProperty (JObj [(''a'', JStr ''x'')]) ''z'' = Inr False
           \<and> map_of (own_properties (JObj [(''a'', JStr ''x'')])) ''z'' = None"
    by (rule t [THEN conjunct2, THEN conjunct2, THEN conjunct2, THEN conjunct1, THEN mp])
       (use n d in blast)
  have g: "get_prop (JObj [(''z'', JNum 1), (''a'', JStr ''x'')]) ''a''
             = get_prop (JObj [(''a'', JStr ''x'')]) ''a''"
    by (simp add: get_prop_def)
  have c: "decode (Struct [(''a'', String)]) (JObj [(''z'', JNum 1), (''a'', JStr ''x'')])
       = decode (Struct [(''a'', String)]) (JObj [(''a'', JStr ''x'')])"
    by (rule t [THEN conjunct1, THEN mp]) (use g in simp)
  have l: "decode (Struct [(''a'', String)]) (JObj [(''z'', JNum 1)]) = Left [required_error ''a'']"
    by code_simp
  have p: "\<exists>key rest. path (required_error ''a'') = Some (key # rest)
          \<and> key \<in> set (map fst [(''a'', String)])"
    by (rule u [THEN conjunct2, THEN conjunct2, THEN conjunct1, THEN mp]) (use l in simp)
  from n d a b g c l p show ?thesis by blast
qed

section \<open>Inputs that are not objects, and arrays\<close>

text \<open>
  \<^verbatim>\<open>Struct\<close>'s \<^verbatim>\<open>decode\<close> returns the single \<^verbatim>\<open>invalid_type\<close> error about the whole input
  (no path, message "Expected object, received ...") exactly when the input is \<^verbatim>\<open>null\<close>
  or its \<^verbatim>\<open>typeof\<close> is not \<^verbatim>\<open>object\<close>. An array has \<^verbatim>\<open>typeof\<close> \<^verbatim>\<open>object\<close>, so it goes
  through the loop over the declared fields, each read on the array: every error it gets
  carries a path, and a declared field that reads as \<^verbatim>\<open>undefined\<close> on the array gives the
  \<^verbatim>\<open>required\<close> error of that field.
\<close>

lemma Struct_decode_whole_input_error:
  "(decode (Struct validators) data
      = Left [\<lparr> path = None, code = ''invalid_type'',
                 message = ''Expected object, received ''
                   @ (if data = JNull then ''null'' else typeof data),
                 input = data \<rparr>]
    \<longleftrightarrow> data = JNull \<or> typeof data \<noteq> ''object'')
   \<and> (data \<noteq> JNull \<and> typeof data = ''object''
        \<and> decode (Struct validators) data = Left errors \<and> e \<in> set errors
      \<longrightarrow> path e \<noteq> None)
   \<and> typeof (JArr xs) = ''object''
   \<and> decode (Struct validators) (JArr xs)
       = (if concat (map (field_errors (JArr xs)) validators) = []
          then Right (JObj (fst (Struct_decode_loop validators (JArr xs) [] [])))
          else Left (concat (map (field_errors (JArr xs)) validators)))
   \<and> ((key, validator) \<in> set validators \<and> get_prop (JArr xs) key = JUndefined
      \<longrightarrow> (\<exists>errors. decode (Struct validators) (JArr xs) = Left errors
            \<and> required_error key \<in> set errors
            \<and> (\<forall>e \<in> set errors. path e \<noteq> None)))"
proof -
  let ?whole = "\<lparr> path = None, code = ''invalid_type'',
                   message = ''Expected object, received ''
                     @ (if data = JNull then ''null'' else typeof data),
                   input = data \<rparr>"
  have paths: "path e \<noteq> None"
    if obj: "typeof x = ''object''" "x \<noteq> JNull"
      and l: "decode (Struct validators) x = Left errors" and e: "e \<in> set errors"
    for x errors e
  proof -
    have "errors = concat (map (field_errors x) validators)"
      using Struct_decode_object [OF obj, of validators] l by (simp split: if_splits)
    with e obtain field where "e \<in> set (field_errors x field)" by auto
    then show ?thesis by (rule field_errors_have_path)
  qed
  have 1: "decode (Struct validators) data = Left [?whole]
           \<longleftrightarrow> data = JNull \<or> typeof data \<noteq> ''object''"
  proof
    assume l: "decode (Struct validators) data = Left [?whole]"
    show "data = JNull \<or> typeof data \<noteq> ''object''"
    proof (rule ccontr)
      assume "\<not> (data = JNull \<or> typeof data \<noteq> ''object'')"
      then have "typeof data = ''object''" and "data \<noteq> JNull" by auto
      from paths [OF this l, of ?whole] show False by simp
    qed
  next
    assume "data = JNull \<or> typeof data \<noteq> ''object''"
    then show "decode (Struct validators) data = Left [?whole]"
      by (auto simp: Struct_decode_def)
  qed
  have 2: "data \<noteq> JNull \<and> typeof data = ''object''
        \<and> decode (Struct validators) data = Left errors \<and> e \<in> set errors
      \<longrightarrow> path e \<noteq> None"
    using paths [of data errors e] by blast
  have 3: "typeof (JArr xs) = ''object''" by simp
  have 4: "decode (Struct validators) (JArr xs)
       = (if concat (map (field_errors (JArr xs)) validators) = []
          then Right (JObj (fst (Struct_decode_loop validators (JArr xs) [] [])))
          else Left (concat (map (field_errors (JArr xs)) validators)))"
    using Struct_decode_object [of "JArr xs" validators] by simp
  have 5: "\<exists>errors. decode (Struct validators) (JArr xs) = Left errors
            \<and> required_error key \<in> set errors
            \<and> (\<forall>e \<in> set errors. path e \<noteq> None)"
    if m: "(key, validator) \<in> set validators" and u: "get_prop (JArr xs) key = JUndefined"
  proof -
    let ?all = "concat (map (field_errors (JArr xs)) validators)"
    have "field_errors (JArr xs) (key, validator) = [required_error key]"
      using u by (simp add: field_errors_def)
    then have r: "required_error key \<in> set ?all"
      using m by force
    then have "?all \<noteq> []" by (cases ?all) simp_all
    with 4 have d: "decode (Struct validators) (JArr xs) = Left ?all" by simp
    moreover have "\<forall>e \<in> set ?all. path e \<noteq> None"
      using paths [OF _ _ d] by simp
    ultimately show ?thesis using r by blast
  qed
  from 1 2 3 4 5 show ?thesis by blast
qed

text \<open>
  Claim C10. The error about the whole input appears exactly when the input is \<^verbatim>\<open>null\<close>
  or not of \<^verbatim>\<open>typeof\<close> \<^verbatim>\<open>object\<close>, and an array is decoded as an object, its declared
  fields read on the array (the lemma above). A field that is absent from the array does
  not always give a \<^verbatim>\<open>required\<close> error: by the same unguarded read \<^verbatim>\<open>obj[key]\<close> as under
  claim C1, an absent field that has the name of a member of \<^verbatim>\<open>Array.prototype\<close> or of
  \<^verbatim>\<open>Object.prototype\<close> reads as that member. On the array \<^verbatim>\<open>["x"]\<close> the fields \<^verbatim>\<open>0\<close> and
  \<^verbatim>\<open>length\<close> are found on the array; \<^verbatim>\<open>name\<close> is absent and reported as \<^verbatim>\<open>required\<close>;
  \<^verbatim>\<open>values\<close> is absent too, and the code reports \<^verbatim>\<open>invalid_type\<close>, "Expected array,
  received function", at the path \<^verbatim>\<open>["values"]\<close>, where the claim gives \<^verbatim>\<open>required\<close>.
\<close>

theorem Struct_decode_array_field_reads_prototype:
  "hasOwnProperty (JArr [JStr ''x'']) ''values'' = Inr False
   \<and> hasOwnProperty (JArr [JStr ''x'']) ''name'' = Inr False
   \<and> decode (Struct [(''0'', String), (''length'', Number), (''values'', List Number),
                      (''name'', String)]) (JArr [JStr ''x''])
       = Left [\<lparr> path = Some [''values''], code = ''invalid_type'',
                  message = ''Expected array, received function'',
                  input = JFun ''Array.prototype.values'' \<rparr>,
               required_error ''name'']"
  by code_simp

section \<open>The effect wrapper\<close>

text \<open>
  Claim C6. Forking an effect built by \<^verbatim>\<open>from\<close>, on any runtime and from any world:
  when the wrapped operation's promise fulfils with a value the result is \<^verbatim>\<open>Right\<close> of
  that value; when the operation throws before returning its promise, or its promise
  rejects, the result is \<^verbatim>\<open>Left\<close> of what was thrown; and the promise returned by the
  fork is never a rejected one.
\<close>

theorem from_catches_every_exception:
  "(f runtime w = (Returns (Fulfilled v), w')
      \<longrightarrow> fork runtime (Task_from f) w = (Fulfilled (Right v), w'))
   \<and> (f runtime w = (Throws e, w')
      \<longrightarrow> fork runtime (Task_from f) w = (Fulfilled (Left e), w'))
   \<and> (f runtime w = (Returns (Rejected e), w')
      \<longrightarrow> fork runtime (Task_from f) w = (Fulfilled (Left e), w'))
   \<and> fst (fork runtime (Task_from f) w) \<noteq> Rejected x"
  by (auto simp: fork_def Task_from_def split: prod.splits invocation.splits outcome.splits)

theorem from_catches_every_exception_witness:
  "op_fulfils ''app'' [] = (Returns (Fulfilled 10), [''app: fetched''])
   \<and> fork ''app'' (Task_from op_fulfils) [] = (Fulfilled (Right 10), [''app: fetched''])
   \<and> op_throws ''app'' [] = (Throws ''bad url'', [])
   \<and> fork ''app'' (Task_from op_throws) [] = (Fulfilled (Left ''bad url''), [])
   \<and> op_rejects ''app'' [] = (Returns (Rejected ''offline''), [''app: tried''])
   \<and> fork ''app'' (Task_from op_rejects) [] = (Fulfilled (Left ''offline''), [''app: tried''])"
proof -
  have a: "op_fulfils ''app'' [] = (Returns (Fulfilled 10), [''app: fetched''])"
    by (simp add: op_fulfils_def)
  have b: "op_throws ''app'' [] = (Throws ''bad url'', [])"
    by (simp add: op_throws_def)
  have c: "op_rejects ''app'' [] = (Returns (Rejected ''offline''), [''app: tried''])"
    by (simp add: op_rejects_def)
  note t = from_catches_every_exception
  from a b c
    t [of op_fulfils "''app''" "[]" 10 "[''app: fetched'']", THEN conjunct1, THEN mp, OF a]
    t [of op_throws "''app''" "[]" _ _ "''bad url''", THEN conjunct2, THEN conjunct1, THEN mp, OF b]
    t [of op_rejects "''app''" "[]" _ "[''app: tried'']" "''offline''", THEN conjunct2, THEN conjunct2,
       THEN conjunct1, THEN mp, OF c]
  show ?thesis by blast
qed

text \<open>
  Claim C7. For two effects composed with \<^verbatim>\<open>flatMap\<close> (the \<^verbatim>\<open>chain\<close> of the
  specification), forked on any runtime from any world. When the first effect's result is a
  failure, the composed effect gives that failure and leaves the world as the first effect
  left it, whatever the function producing the second effect is: that function is given
  the world to act on when it is called, so it was not called, and no second operation
  ran. When the first succeeds, the function is called on the success value, in the world
  the first effect left when its promise settled, and the second effect runs from the
  world after that call; with two effects built by \<^verbatim>\<open>from\<close>, the second wrapped operation
  begins in the world in which the first one's promise settled.
\<close>

theorem flatMap_short_circuits_and_sequences:
  "(readerTaskEither runtime w = (Fulfilled (Left l), w')
      \<longrightarrow> fork runtime (Task_flatMap f readerTaskEither) w = (Fulfilled (Left l), w'))
   \<and> (readerTaskEither runtime w = (Fulfilled (Right r), w') \<and> f r w' = (Inr next_effect, w'')
      \<longrightarrow> fork runtime (Task_flatMap f readerTaskEither) w = fork runtime next_effect w'')
   \<and> ((first runtime w = (Throws e, w') \<or> first runtime w = (Returns (Rejected e), w'))
      \<longrightarrow> fork runtime (Task_flatMap f (Task_from first)) w = (Fulfilled (Left e), w'))
   \<and> (first runtime w = (Returns (Fulfilled r), w') \<and> f r w' = (Inr (Task_from second), w'')
      \<longrightarrow> fork runtime (Task_flatMap f (Task_from first)) w = fork runtime (Task_from second) w''
        \<and> snd (fork runtime (Task_flatMap f (Task_from first)) w) = snd (second runtime w''))"
  by (auto simp: fork_def Task_flatMap_def Task_from_def
      split: prod.splits invocation.splits outcome.splits Either.splits)

text \<open>
  The theorem on the example operations: a first operation that throws, followed by a
  callback that would write a line, leaves no line; a first operation that fulfils with
  10 is followed by the callback and the doubling operation, in that order.
\<close>

theorem flatMap_short_circuits_and_sequences_witness:
  "op_throws ''app'' [] = (Throws ''bad url'', [])
   \<and> fork ''app'' (Task_flatMap then_double (Task_from op_throws)) [] = (Fulfilled (Left ''bad url''), [])
   \<and> op_fulfils ''app'' [] = (Returns (Fulfilled 10), [''app: fetched''])
   \<and> then_double 10 [''app: fetched'']
       = (Inr (Task_from (op_double 10)), [''app: fetched'', ''callback called''])
   \<and> fork ''app'' (Task_flatMap then_double (Task_from op_fulfils)) []
       = (Fulfilled (Right 20), [''app: fetched'', ''callback called'', ''app: doubling''])"
proof -
  have a: "op_throws ''app'' [] = (Throws ''bad url'', [])"
    by (simp add: op_throws_def)
  have b: "op_fulfils ''app'' [] = (Returns (Fulfilled 10), [''app: fetched''])"
    by (simp add: op_fulfils_def)
  have c: "then_double 10 [''app: fetched'']
       = (Inr (Task_from (op_double 10)), [''app: fetched'', ''callback called''])"
    by (simp add: then_double_def)
  note t = flatMap_short_circuits_and_sequences
  have d: "fork ''app'' (Task_flatMap then_double (Task_from op_throws)) [] = (Fulfilled (Left ''bad url''), [])"
    by (rule t [where first = op_throws, THEN conjunct2, THEN conjunct2, THEN conjunct1, THEN mp])
       (simp add: a)
  have "fork ''app'' (Task_flatMap then_double (Task_from op_fulfils)) []
          = fork ''app'' (Task_from (op_double 10)) [''app: fetched'', ''callback called'']"
    using t [where first = op_fulfils and second = "op_double 10" and r = 10 and f = then_double
        and runtime = "''app''" and w = "[]" and w' = "[''app: fetched'']"
        and w'' = "[''app: fetched'', ''callback called'']",
        THEN conjunct2, THEN conjunct2, THEN conjunct2, THEN mp] b c
    by blast
  then have e: "fork ''app'' (Task_flatMap then_double (Task_from op_fulfils)) []
       = (Fulfilled (Right 20), [''app: fetched'', ''callback called'', ''app: doubling''])"
    by (simp add: fork_def Task_from_def op_double_def)
  from a b c d e show ?thesis by blast
qed

text \<open>
  Claim C9. When an effect succeeds with a value and the function given to \<^verbatim>\<open>map\<close>
  throws on that value, forking the mapped effect gives a rejected promise carrying what
  was thrown: nothing turns it into a \<^verbatim>\<open>Left\<close>. The same holds when the effect was built
  by \<^verbatim>\<open>from\<close>, whereas what the operation wrapped by \<^verbatim>\<open>from\<close> throws is caught and
  returned as a \<^verbatim>\<open>Left\<close>.
\<close>

theorem map_does_not_catch:
  "(readerTaskEither runtime w = (Fulfilled (Right r), w') \<and> f r w' = (Inl e, w'')
      \<longrightarrow> fork runtime (Task_map f readerTaskEither) w = (Rejected e, w''))
   \<and> (operation runtime w = (Returns (Fulfilled r), w') \<and> f r w' = (Inl e, w'')
      \<longrightarrow> fork runtime (Task_map f (Task_from operation)) w = (Rejected e, w''))
   \<and> (operation runtime w = (Throws e, w')
      \<longrightarrow> fork runtime (Task_from operation) w = (Fulfilled (Left e), w'))"
  by (auto simp: fork_def Task_map_def Task_from_def
      split: prod.splits invocation.splits outcome.splits Either.splits)

theorem map_does_not_catch_witness:
  "op_fulfils ''app'' [] = (Returns (Fulfilled 10), [''app: fetched''])
   \<and> parse_fails 10 [''app: fetched''] = (Inl ''not a todo'', [''app: fetched''])
   \<and> fork ''app'' (Task_map parse_fails (Task_from op_fulfils)) []
       = (Rejected ''not a todo'', [''app: fetched''])
   \<and> op_throws ''app'' [] = (Throws ''bad url'', [])
   \<and> fork ''app'' (Task_from op_throws) [] = (Fulfilled (Left ''bad url''), [])"
proof -
  have a: "op_fulfils ''app'' [] = (Returns (Fulfilled 10), [''app: fetched''])"
    by (simp add: op_fulfils_def)
  have b: "parse_fails 10 [''app: fetched''] = (Inl ''not a todo'', [''app: fetched''])"
    by (simp add: parse_fails_def)
  have c: "op_throws ''app'' [] = (Throws ''bad url'', [])"
    by (simp add: op_throws_def)
  note t = map_does_not_catch
  have d: "fork ''app'' (Task_map parse_fails (Task_from op_fulfils)) []
       = (Rejected ''not a todo'', [''app: fetched''])"
    by (rule t [where operation = op_fulfils and r = 10 and w' = "[''app: fetched'']",
          THEN conjunct2, THEN conjunct1, THEN mp])
       (simp add: a b)
  have e: "fork ''app'' (Task_from op_throws) [] = (Fulfilled (Left ''bad url''), [])"
    by (rule t [where operation = op_throws, THEN conjunct2, THEN conjunct2, THEN mp]) (rule c)
  from a b c d e show ?thesis by blast
qed

section \<open>The message thrown by make\<close>

text \<open>
  For the four other constructors \<^verbatim>\<open>make\<close> throws the errors of \<^verbatim>\<open>decode\<close>, each formatted
  with its path, and returns the decoded value otherwise.
\<close>

lemma make_schema_formats_errors:
  "s \<in> {makePrimitive guard typeName encoder, Literal literal, Struct validators, List itemSchema}
   \<Longrightarrow> make_schema s data =
         (case decode s data of
            Left l \<Rightarrow> Inl (''Validation failed: '' @ join '', '' (map format_error l))
          | Right r \<Rightarrow> Inr r)"
  by (auto simp: makePrimitive_def Literal_def Struct_def List_def format_error_def
      split: Either.splits if_splits)

text \<open>
  Claim C3. The claim holds for \<^verbatim>\<open>makePrimitive\<close>, \<^verbatim>\<open>Literal\<close>, \<^verbatim>\<open>Struct\<close> and \<^verbatim>\<open>List\<close>
  (the lemma above). The \<^verbatim>\<open>make\<close> of \<^verbatim>\<open>transform\<close> joins the messages alone and leaves
  the paths out. On the struct \<^verbatim>\<open>{a: {b: Number}}\<close> wrapped in a transform that changes
  nothing, the input \<^verbatim>\<open>{a: {b: "x"}}\<close> fails to decode with one error of path
  \<^verbatim>\<open>["a", "b"]\<close>; \<^verbatim>\<open>make\<close> throws "Validation failed: Expected number, received string",
  where the struct's own \<^verbatim>\<open>make\<close> throws
  "Validation failed: a.b: Expected number, received string".
\<close>

theorem transform_make_leaves_paths_out:
  "decode (transform (Struct [(''a'', Struct [(''b'', Number)])]) Inr Inr)
       (JObj [(''a'', JObj [(''b'', JStr ''x'')])])
     = Left [\<lparr> path = Some [''a'', ''b''], code = ''invalid_type'',
                message = ''Expected number, received string'', input = JStr ''x'' \<rparr>]
   \<and> make_schema (transform (Struct [(''a'', Struct [(''b'', Number)])]) Inr Inr)
       (JObj [(''a'', JObj [(''b'', JStr ''x'')])])
     = Inl ''Validation failed: Expected number, received string''
   \<and> make_schema (Struct [(''a'', Struct [(''b'', Number)])])
       (JObj [(''a'', JObj [(''b'', JStr ''x'')])])
     = Inl ''Validation failed: a.b: Expected number, received string''"
  by (simp add: transform_def transform_decode_def Struct_def Struct_decode_def get_prop_def
      Number_def makePrimitive_def with_key_def path_or_empty_def format_error_def)

section \<open>Option\<close>

text \<open>
  Claim C8, as the code has it. \<^verbatim>\<open>fromNullable\<close> gives \<^verbatim>\<open>Some\<close> of its argument when
  the argument is neither \<^verbatim>\<open>null\<close> nor \<^verbatim>\<open>undefined\<close>, and \<^verbatim>\<open>None\<close> on \<^verbatim>\<open>null\<close> and on
  \<^verbatim>\<open>undefined\<close>; \<^verbatim>\<open>map\<close> on \<^verbatim>\<open>Some(v)\<close> gives \<^verbatim>\<open>None\<close> when the function returns \<^verbatim>\<open>null\<close>
  or \<^verbatim>\<open>undefined\<close> and \<^verbatim>\<open>Some\<close> of the function's result otherwise; so an option returned
  by \<^verbatim>\<open>fromNullable\<close> or by \<^verbatim>\<open>map\<close> never holds \<^verbatim>\<open>null\<close> or \<^verbatim>\<open>undefined\<close> under \<^verbatim>\<open>Some\<close>.
  The constructor \<^verbatim>\<open>Some\<close> itself is left out: it does not normalise its argument.
\<close>

theorem fromNullable_and_map_normalise:
  "(\<not> loosely_null v \<longrightarrow> fromNullable v = Some_opt v)
   \<and> fromNullable JNull = None_opt
   \<and> fromNullable JUndefined = None_opt
   \<and> (loosely_null (fn v) \<longrightarrow> Option_map fn (Some_opt v) = None_opt)
   \<and> (\<not> loosely_null (fn v) \<longrightarrow> Option_map fn (Some_opt v) = Some_opt (fn v))
   \<and> Option_map fn None_opt = None_opt
   \<and> (fromNullable v = Some_opt u \<longrightarrow> \<not> loosely_null u)
   \<and> (Option_map fn option = Some_opt u \<longrightarrow> \<not> loosely_null u)"
  by (cases option)
     (auto simp: fromNullable_def Option_map_def bimap_def loosely_null_def Let_def
      split: if_splits)

theorem fromNullable_and_map_normalise_witness:
  "\<not> loosely_null (JNum 7)
   \<and> fromNullable (JNum 7) = Some_opt (JNum 7)
   \<and> loosely_null (get_prop (JObj []) ''birthdate'')
   \<and> Option_map (\<lambda>u. get_prop u ''birthdate'') (Some_opt (JObj [])) = None_opt
   \<and> \<not> loosely_null (get_prop (JObj [(''id'', JStr ''1'')]) ''id'')
   \<and> Option_map (\<lambda>u. get_prop u ''id'') (Some_opt (JObj [(''id'', JStr ''1'')])) = Some_opt (JStr ''1'')
   \<and> \<not> loosely_null (JStr ''1'')"
proof -
  note t = fromNullable_and_map_normalise
  have a: "\<not> loosely_null (JNum 7)" by (simp add: loosely_null_def)
  have b: "loosely_null (get_prop (JObj []) ''birthdate'')"
    by code_simp
  have c: "\<not> loosely_null (get_prop (JObj [(''id'', JStr ''1'')]) ''id'')"
    by (simp add: loosely_null_def get_prop_def)
  have d: "fromNullable (JNum 7) = Some_opt (JNum 7)"
    by (rule t [THEN conjunct1, THEN mp]) (rule a)
  have e: "Option_map (\<lambda>u. get_prop u ''birthdate'') (Some_opt (JObj [])) = None_opt"
    by (rule t [where fn = "\<lambda>u. get_prop u ''birthdate''", THEN conjunct2, THEN conjunct2,
          THEN conjunct2, THEN conjunct1, THEN mp]) (rule b)
  have f: "Option_map (\<lambda>u. get_prop u ''id'') (Some_opt (JObj [(''id'', JStr ''1'')]))
             = Some_opt (get_prop (JObj [(''id'', JStr ''1'')]) ''id'')"
    by (rule t [where fn = "\<lambda>u. get_prop u ''id''", THEN conjunct2, THEN conjunct2,
          THEN conjunct2, THEN conjunct2, THEN conjunct1, THEN mp]) (rule c)
  have g: "get_prop (JObj [(''id'', JStr ''1'')]) ''id'' = JStr ''1''"
    by (simp add: get_prop_def)
  have h: "\<not> loosely_null (JStr ''1'')"
    by (rule t [where fn = "\<lambda>u. get_prop u ''id''" and option = "Some_opt (JObj [(''id'', JStr ''1'')])",
          THEN conjunct2, THEN conjunct2, THEN conjunct2, THEN conjunct2, THEN conjunct2,
          THEN conjunct2, THEN conjunct2, THEN mp]) (use f g in simp)
  from a b c d e f g h show ?thesis by simp
qed

text \<open>
  The claim as stated fails at \<^verbatim>\<open>Some(null)\<close>: it is a \<^verbatim>\<open>Some\<close> holding \<^verbatim>\<open>null\<close>, not
  \<^verbatim>\<open>None\<close>.
\<close>

theorem Some_of_null_is_not_None:
  "Some_opt JNull \<noteq> None_opt \<and> isSome (Some_opt JNull) \<and> \<not> isNone (Some_opt JNull)
   \<and> Option_value (Some_opt JNull) = JNull \<and> loosely_null JNull"
  by (simp add: loosely_null_def)

section \<open>Round trip\<close>

















end
